theory Spec2Isabelle
  imports Complex_Main
begin

section \<open>Loan/EMI tracker of the bill-reminder backend\<close>

text \<open>
  A shallow embedding of \<^verbatim>\<open>backend/models.py\<close> (class \<^verbatim>\<open>LoanDetails\<close>) and of the
  loan routes of \<^verbatim>\<open>backend/loans.py\<close>.

  Conventions of the embedding:
  \<^item> \<^verbatim>\<open>db.Float\<close> columns and JSON numbers are exact rationals: rounding, infinities and NaN of
    IEEE doubles are not modelled;
  \<^item> \<^verbatim>\<open>db.Integer\<close> columns are Python's unbounded integers;
  \<^item> a nullable column is an \<open>option\<close>; Python's \<^verbatim>\<open>None\<close> is \<open>None\<close>;
  \<^item> the clock (\<^verbatim>\<open>datetime.utcnow()\<close>, \<^verbatim>\<open>datetime.now()\<close>) and fresh primary keys are
    arguments of the function that reads them;
  \<^item> the JSON text of \<^verbatim>\<open>payment_history\<close> is the list it encodes (\<^verbatim>\<open>json.loads\<close> of what
    \<^verbatim>\<open>json.dumps\<close> wrote); the column being \<^verbatim>\<open>None\<close> is the empty list, which is what
    \<^verbatim>\<open>make_payment\<close> reads it as;
  \<^item> columns that no modelled code reads (\<^verbatim>\<open>LoanDetails.id\<close>, \<^verbatim>\<open>created_at\<close>) are left out.
\<close>

subsection \<open>Values decoded from a JSON request\<close>

text \<open>
  What \<^verbatim>\<open>request.get_json()\<close> yields for a field that the loan code reads as a number:
  \<^verbatim>\<open>null\<close>, a boolean, an integer or a float. Strings, lists and objects in a numeric field are
  outside the model.
\<close>

datatype jval = JNull | JBool bool | JInt int | JFloat rat

text \<open>Python's truth value, as tested by \<^verbatim>\<open>not data[field]\<close> and by \<^verbatim>\<open>or\<close>.\<close>

fun truthy :: "jval \<Rightarrow> bool" where
  "truthy JNull = False"
| "truthy (JBool b) = b"
| "truthy (JInt i) = (i \<noteq> 0)"
| "truthy (JFloat r) = (r \<noteq> 0)"

text \<open>\<^verbatim>\<open>float(v)\<close>; \<open>None\<close> when Python raises \<^verbatim>\<open>TypeError\<close> (for \<^verbatim>\<open>None\<close>).\<close>

fun py_float :: "jval \<Rightarrow> rat option" where
  "py_float JNull = None"
| "py_float (JBool b) = Some (if b then 1 else 0)"
| "py_float (JInt i) = Some (of_int i)"
| "py_float (JFloat r) = Some r"

text \<open>\<^verbatim>\<open>int(v)\<close>: a float is truncated towards zero; \<open>None\<close> when Python raises.\<close>

fun py_int :: "jval \<Rightarrow> int option" where
  "py_int JNull = None"
| "py_int (JBool b) = Some (if b then 1 else 0)"
| "py_int (JInt i) = Some i"
| "py_int (JFloat r) = Some (if r < 0 then \<lceil>r\<rceil> else \<lfloor>r\<rfloor>)"

text \<open>\<^verbatim>\<open>data.get(key, 0)\<close> for a key that may be absent (\<open>None\<close>).\<close>

definition get_or_zero :: "jval option \<Rightarrow> jval" where
  "get_or_zero v = (case v of None \<Rightarrow> JInt 0 | Some x \<Rightarrow> x)"

subsection \<open>Dates\<close>

text \<open>
  A \<^verbatim>\<open>datetime\<close>: calendar date plus the time of day, which month arithmetic carries
  along unchanged. Years are unbounded here (Python's \<^verbatim>\<open>datetime\<close> stops at year 9999).
\<close>

record datetime =
  year :: int
  month :: int
  day :: int
  time_of_day :: nat

definition isleap :: "int \<Rightarrow> bool" where
  "isleap y = (y mod 4 = 0 \<and> (y mod 100 \<noteq> 0 \<or> y mod 400 = 0))"

definition days_in_month :: "int \<Rightarrow> int \<Rightarrow> int" where
  "days_in_month y m =
     (if m = 2 then (if isleap y then 29 else 28)
      else if m = 4 \<or> m = 6 \<or> m = 9 \<or> m = 11 then 30 else 31)"

text \<open>
  \<^verbatim>\<open>dt + relativedelta(months=n)\<close> of the \<^verbatim>\<open>dateutil\<close> library, which both source files
  import: \<^verbatim>\<open>n\<close> is normalised to whole years and a rest of absolute value below 12 with the
  sign of \<^verbatim>\<open>n\<close>, the month is carried into the year, and the day is clamped to the length
  of the resulting month.
\<close>

definition add_months :: "datetime \<Rightarrow> int \<Rightarrow> datetime" where
  "add_months dt n =
     (let s = sgn n;
          years = ((n * s) div 12) * s;
          months = ((n * s) mod 12) * s;
          y0 = year dt + years;
          m0 = month dt + months;
          y = (if m0 > 12 then y0 + 1 else if m0 < 1 then y0 - 1 else y0);
          m = (if m0 > 12 then m0 - 12 else if m0 < 1 then m0 + 12 else m0);
          d = min (days_in_month y m) (day dt)
      in dt\<lparr>year := y, month := m, day := d\<rparr>)"

subsection \<open>The \<^verbatim>\<open>LoanDetails\<close> model\<close>

text \<open>One entry of \<^verbatim>\<open>payment_history\<close>: the dict \<^verbatim>\<open>payment_record\<close> of \<^verbatim>\<open>make_payment\<close>.\<close>

record payment_record =
  rec_installment_no :: int
  rec_amount :: rat
  rec_date :: datetime
  rec_remaining :: rat

text \<open>
  The columns of \<^verbatim>\<open>LoanDetails\<close>. \<^verbatim>\<open>notes\<close> is called \<open>loan_notes\<close> (the word is reserved
  in Isabelle). \<^verbatim>\<open>loan_start_date\<close> is declared \<^verbatim>\<open>nullable=False\<close>.
\<close>

record LoanDetails =
  bill_id :: string
  total_amount :: rat
  monthly_payment :: rat
  interest_rate :: rat
  total_installments :: int
  installments_paid :: int
  total_paid :: rat
  amount_remaining :: "rat option"
  loan_start_date :: datetime
  expected_completion_date :: "datetime option"
  last_payment_date :: "datetime option"
  next_payment_date :: "datetime option"
  payment_history :: "payment_record list"
  is_active :: bool
  loan_notes :: "string option"
  updated_at :: datetime

text \<open>The dict that \<^verbatim>\<open>make_payment\<close> returns.\<close>

record payment_result =
  res_installment_no :: int
  res_amount_paid :: rat
  res_amount_remaining :: rat
  res_is_completed :: bool

text \<open>
  \<^verbatim>\<open>LoanDetails.calculate_loan_details\<close> (models.py, lines 197-211). A number is truthy
  when it is not zero, a nullable date when it is set; the test on \<^verbatim>\<open>loan_start_date\<close> at
  line 209 always passes for a non-null column.
\<close>

definition calculate_loan_details :: "LoanDetails \<Rightarrow> LoanDetails" where
  "calculate_loan_details self =
     (if total_amount self \<noteq> 0 \<and> monthly_payment self \<noteq> 0 then
        (let s1 = self\<lparr>amount_remaining := Some (total_amount self - total_paid self)\<rparr>;
             s2 = (if expected_completion_date s1 = None \<and> total_installments s1 \<noteq> 0
                   then s1\<lparr>expected_completion_date :=
                             Some (add_months (loan_start_date s1) (total_installments s1))\<rparr>
                   else s1)
         in s2\<lparr>next_payment_date :=
                 Some (add_months (loan_start_date s2) (installments_paid s2 + 1))\<rparr>)
      else self)"

text \<open>
  Python's \<^verbatim>\<open>amount or self.monthly_payment\<close> (line 218): the left operand when it is
  truthy, the right one otherwise. \<^verbatim>\<open>None\<close>, \<^verbatim>\<open>False\<close>, \<^verbatim>\<open>0\<close> and \<^verbatim>\<open>0.0\<close> are falsy; in the
  sum of line 222 \<^verbatim>\<open>True\<close> counts as 1.
\<close>

fun amount_or :: "jval \<Rightarrow> rat \<Rightarrow> rat" where
  "amount_or JNull dflt = dflt"
| "amount_or (JBool b) dflt = (if b then 1 else dflt)"
| "amount_or (JInt i) dflt = (if i \<noteq> 0 then of_int i else dflt)"
| "amount_or (JFloat r) dflt = (if r \<noteq> 0 then r else dflt)"

text \<open>
  \<^verbatim>\<open>LoanDetails.make_payment\<close> (models.py, lines 213-258), one binding per assignment of the
  source. \<open>now\<close> is the clock read at line 224, \<open>now2\<close> the one at line 251. The method does
  not look at \<^verbatim>\<open>is_active\<close> before it updates the loan. The amount is what the caller
  passes: \<^verbatim>\<open>None\<close> (\<open>JNull\<close>) or a value decoded from the request.
\<close>

definition make_payment ::
  "LoanDetails \<Rightarrow> jval \<Rightarrow> datetime \<Rightarrow> datetime \<Rightarrow> LoanDetails \<times> payment_result" where
  "make_payment self amount now now2 =
     (let payment_amount = amount_or amount (monthly_payment self);
          s1 = self\<lparr>installments_paid := installments_paid self + 1\<rparr>;
          s2 = s1\<lparr>total_paid := total_paid s1 + payment_amount\<rparr>;
          remaining = total_amount s2 - total_paid s2;
          s3 = s2\<lparr>amount_remaining := Some remaining\<rparr>;
          s4 = s3\<lparr>last_payment_date := Some now\<rparr>;
          payment_rec = \<lparr>rec_installment_no = installments_paid s4,
                         rec_amount = payment_amount,
                         rec_date = now,
                         rec_remaining = remaining\<rparr>;
          s5 = s4\<lparr>payment_history := payment_history s4 @ [payment_rec]\<rparr>;
          s6 = s5\<lparr>next_payment_date :=
                    Some (add_months (loan_start_date s5) (installments_paid s5 + 1))\<rparr>;
          s7 = (if installments_paid s6 \<ge> total_installments s6 \<or> remaining \<le> 0
                then s6\<lparr>is_active := False\<rparr> else s6);
          s8 = s7\<lparr>updated_at := now2\<rparr>
      in (s8, \<lparr>res_installment_no = installments_paid s8,
                res_amount_paid = payment_amount,
                res_amount_remaining = remaining,
                res_is_completed = (\<not> is_active s8)\<rparr>))"

text \<open>
  \<^verbatim>\<open>LoanDetails.__init__\<close> (lines 192-195) for the keyword arguments that
  \<^verbatim>\<open>create_loan_details\<close> passes. The columns it does not pass take the value they have once
  the row is stored: \<^verbatim>\<open>is_active\<close> its default \<^verbatim>\<open>True\<close>, \<^verbatim>\<open>updated_at\<close> the clock, the rest
  \<^verbatim>\<open>None\<close>.
\<close>

definition LoanDetails_init ::
  "string \<Rightarrow> rat \<Rightarrow> rat \<Rightarrow> rat \<Rightarrow> int \<Rightarrow> int \<Rightarrow> rat \<Rightarrow> datetime \<Rightarrow> string option \<Rightarrow> datetime
     \<Rightarrow> LoanDetails" where
  "LoanDetails_init bid ta mp ir ti ip tp start nts utcnow =
     calculate_loan_details
       \<lparr>bill_id = bid, total_amount = ta, monthly_payment = mp, interest_rate = ir,
        total_installments = ti, installments_paid = ip, total_paid = tp,
        amount_remaining = None, loan_start_date = start, expected_completion_date = None,
        last_payment_date = None, next_payment_date = None, payment_history = [],
        is_active = True, loan_notes = nts, updated_at = utcnow\<rparr>"

subsection \<open>Bills and the database\<close>

text \<open>
  The columns of \<^verbatim>\<open>Bill\<close>; its primary key \<^verbatim>\<open>id\<close> is called \<open>ident\<close> and its \<^verbatim>\<open>notes\<close>
  \<open>bill_notes\<close>.
\<close>

record Bill =
  ident :: string
  user_id :: string
  name :: string
  amount :: rat
  due_date :: datetime
  category :: string
  frequency :: string
  is_paid :: bool
  bill_notes :: "string option"
  enable_whatsapp :: bool
  enable_call :: bool
  enable_sms :: bool
  enable_local_notification :: bool

text \<open>The two tables the loan routes touch, rows in storage order.\<close>

record db =
  bills :: "Bill list"
  loans :: "LoanDetails list"

text \<open>\<^verbatim>\<open>Bill.query.filter_by(id=bill_id, user_id=user_id).first()\<close>\<close>

definition find_bill :: "string \<Rightarrow> string \<Rightarrow> db \<Rightarrow> Bill option" where
  "find_bill bid uid s = find (\<lambda>b. ident b = bid \<and> user_id b = uid) (bills s)"

text \<open>\<^verbatim>\<open>LoanDetails.query.filter_by(bill_id=bill_id).first()\<close>\<close>

definition find_loan :: "string \<Rightarrow> db \<Rightarrow> LoanDetails option" where
  "find_loan bid s = find (\<lambda>l. bill_id l = bid) (loans s)"

text \<open>
  Writing a changed row back at commit: the row with the same key is replaced
  (\<^verbatim>\<open>Bill.id\<close> is the primary key, \<^verbatim>\<open>LoanDetails.bill_id\<close> is declared unique).
\<close>

definition put_bill :: "Bill \<Rightarrow> Bill list \<Rightarrow> Bill list" where
  "put_bill b bs = map (\<lambda>x. if ident x = ident b then b else x) bs"

definition put_loan :: "LoanDetails \<Rightarrow> LoanDetails list \<Rightarrow> LoanDetails list" where
  "put_loan l ls = map (\<lambda>x. if bill_id x = bill_id l then l else x) ls"

text \<open>Python's \<^verbatim>\<open>str\<close> of an integer, as the f-string of line 196 formats it.\<close>

definition digit_char :: "nat \<Rightarrow> char" where
  "digit_char d = char_of (48 + d)"

fun str_nat :: "nat \<Rightarrow> string" where
  "str_nat n = (if n < 10 then [digit_char n] else str_nat (n div 10) @ [digit_char (n mod 10)])"

declare str_nat.simps [simp del]

definition str_int :: "int \<Rightarrow> string" where
  "str_int i = (if i < 0 then CHR ''-'' # str_nat (nat (- i)) else str_nat (nat i))"

subsection \<open>The loan routes\<close>

text \<open>
  What a route answers: the HTTP status with the message or payload of its \<^verbatim>\<open>jsonify\<close>.
  The specification's names for the three 400 answers are ValidationError
  (\<open>Missing_fields\<close>), ConflictError (\<open>Loan_exists\<close>) and InvalidStateError (\<open>Loan_completed\<close>).
\<close>

record loan_status =
  st_installments_paid :: int
  st_installments_remaining :: int
  st_amount_remaining :: "rat option"
  st_is_completed :: bool
  st_next_payment_date :: "datetime option"

datatype response =
    Bill_not_found
  | No_loan_details
  | Loan_exists
  | Missing_fields "string list"
  | Loan_completed
  | Failed
  | Loan_created LoanDetails
  | Payment_recorded payment_result loan_status
  | Loan_updated

fun status_code :: "response \<Rightarrow> nat" where
  "status_code Bill_not_found = 404"
| "status_code No_loan_details = 404"
| "status_code Loan_exists = 400"
| "status_code (Missing_fields fs) = 400"
| "status_code Loan_completed = 400"
| "status_code Failed = 500"
| "status_code (Loan_created l) = 201"
| "status_code (Payment_recorded r st) = 200"
| "status_code Loan_updated = 200"

text \<open>
  The body of \<^verbatim>\<open>POST /bills/<bill_id>/loan\<close>: each numeric key is absent (\<open>None\<close>) or holds a
  value; \<^verbatim>\<open>loan_start_date\<close> is the date its ISO text parses to, \<open>None\<close> when the key is
  absent or empty.
\<close>

record loan_request =
  req_total_amount :: "jval option"
  req_monthly_payment :: "jval option"
  req_total_installments :: "jval option"
  req_interest_rate :: "jval option"
  req_installments_paid :: "jval option"
  req_total_paid :: "jval option"
  req_loan_start_date :: "datetime option"
  req_notes :: "string option"

text \<open>\<^verbatim>\<open>field not in data or not data[field]\<close> (line 41)\<close>

definition absent_or_falsy :: "jval option \<Rightarrow> bool" where
  "absent_or_falsy v = (case v of None \<Rightarrow> True | Some x \<Rightarrow> \<not> truthy x)"

text \<open>The list \<^verbatim>\<open>missing\<close> of lines 40-41, in the order of \<^verbatim>\<open>required\<close>.\<close>

definition missing_fields :: "loan_request \<Rightarrow> string list" where
  "missing_fields data =
     (if absent_or_falsy (req_total_amount data) then [''total_amount''] else []) @
     (if absent_or_falsy (req_monthly_payment data) then [''monthly_payment''] else []) @
     (if absent_or_falsy (req_total_installments data) then [''total_installments''] else [])"

text \<open>
  Lines 47-63: the start date and the constructor call with its conversions. \<open>None\<close> when
  a conversion raises, which the \<^verbatim>\<open>except\<close> of line 93 turns into the answer 500.
\<close>

definition new_loan :: "string \<Rightarrow> loan_request \<Rightarrow> datetime \<Rightarrow> datetime \<Rightarrow> LoanDetails option" where
  "new_loan bid data now utcnow =
     (let start = (case req_loan_start_date data of None \<Rightarrow> now | Some d \<Rightarrow> d) in
      Option.bind (Option.bind (req_total_amount data) py_float) (\<lambda>ta.
      Option.bind (Option.bind (req_monthly_payment data) py_float) (\<lambda>mp.
      Option.bind (py_float (get_or_zero (req_interest_rate data))) (\<lambda>ir.
      Option.bind (Option.bind (req_total_installments data) py_int) (\<lambda>ti.
      Option.bind (py_int (get_or_zero (req_installments_paid data))) (\<lambda>ip.
      Option.bind (py_float (get_or_zero (req_total_paid data))) (\<lambda>tp.
      Some (LoanDetails_init bid ta mp ir ti ip tp start (req_notes data) utcnow))))))))"

text \<open>
  \<^verbatim>\<open>create_loan_details\<close> (loans.py, lines 19-96), the specification's \<^verbatim>\<open>initialize\<close>.
  \<open>uid\<close> is \<^verbatim>\<open>get_jwt_identity()\<close>. An answer other than 201 leaves the database as it was
  (nothing is added before the commit, and the \<^verbatim>\<open>except\<close> branch rolls back).
\<close>

definition create_loan_details ::
  "string \<Rightarrow> string \<Rightarrow> loan_request \<Rightarrow> datetime \<Rightarrow> datetime \<Rightarrow> db \<Rightarrow> response \<times> db" where
  "create_loan_details uid bid data now utcnow s =
     (case find_bill bid uid s of
        None \<Rightarrow> (Bill_not_found, s)
      | Some bill \<Rightarrow>
          (case find_loan bid s of
             Some existing_loan \<Rightarrow> (Loan_exists, s)
           | None \<Rightarrow>
               (let missing = missing_fields data in
                if missing \<noteq> [] then (Missing_fields missing, s)
                else
                  (case new_loan bid data now utcnow of
                     None \<Rightarrow> (Failed, s)
                   | Some loan0 \<Rightarrow>
                       (let loan = calculate_loan_details loan0;
                            bill' = bill\<lparr>amount := monthly_payment loan,
                                         frequency := ''monthly''\<rparr>
                        in (Loan_created loan,
                            s\<lparr>bills := put_bill bill' (bills s),
                              loans := loans s @ [loan]\<rparr>))))))"

text \<open>
  Lines 176-203 of \<^verbatim>\<open>record_loan_payment\<close>, the specification's
  \<^verbatim>\<open>advance_recurring_bill\<close>: the bill of the next month. \<open>new_id\<close> is the primary key the new
  row gets. The result is the row handed to \<^verbatim>\<open>db.session.add\<close>, if any, and the table of
  bills afterwards.
\<close>

definition advance_recurring_bill ::
  "string \<Rightarrow> Bill \<Rightarrow> LoanDetails \<Rightarrow> string \<Rightarrow> Bill list \<Rightarrow> Bill option \<times> Bill list" where
  "advance_recurring_bill uid bill loan new_id bs =
     (if is_active loan \<and> frequency bill = ''monthly'' then
        (let next_due_date = add_months (due_date bill) 1 in
         case find (\<lambda>b. user_id b = uid \<and> name b = name bill \<and> due_date b = next_due_date) bs of
           Some next_bill \<Rightarrow> (None, bs)
         | None \<Rightarrow>
             (let next_bill =
                    \<lparr>ident = new_id, user_id = uid, name = name bill,
                     amount = monthly_payment loan, due_date = next_due_date,
                     category = category bill, frequency = frequency bill, is_paid = False,
                     bill_notes = Some (''EMI #'' @ str_int (installments_paid loan + 1) @
                                        '' of '' @ str_int (total_installments loan)),
                     enable_whatsapp = enable_whatsapp bill, enable_call = enable_call bill,
                     enable_sms = enable_sms bill,
                     enable_local_notification = enable_local_notification bill\<rparr>
              in (Some next_bill, bs @ [next_bill])))
      else (None, bs))"

text \<open>
  \<^verbatim>\<open>record_loan_payment\<close> (loans.py, lines 146-224), the specification's
  \<^verbatim>\<open>record_payment\<close>. \<open>data\<close> is the entry \<^verbatim>\<open>amount\<close> of the request body, \<open>None\<close> when there
  is no body or no such key, so that line 167 gives \<^verbatim>\<open>None\<close>. With a numeric amount nothing
  in the \<^verbatim>\<open>try\<close> block raises.
\<close>

definition record_loan_payment ::
  "string \<Rightarrow> string \<Rightarrow> jval option \<Rightarrow> datetime \<Rightarrow> datetime \<Rightarrow> string \<Rightarrow> db \<Rightarrow> response \<times> db" where
  "record_loan_payment uid bid data now now2 new_id s =
     (case find_bill bid uid s of
        None \<Rightarrow> (Bill_not_found, s)
      | Some bill \<Rightarrow>
          (case find_loan bid s of
             None \<Rightarrow> (No_loan_details, s)
           | Some loan \<Rightarrow>
               if \<not> is_active loan then (Loan_completed, s)
               else
                 (let payment_amount = (case data of None \<Rightarrow> JNull | Some v \<Rightarrow> v);
                      (loan', result) = make_payment loan payment_amount now now2;
                      bill' = bill\<lparr>is_paid := True\<rparr>;
                      (added, bs) = advance_recurring_bill uid bill' loan' new_id
                                      (put_bill bill' (bills s))
                  in (Payment_recorded result
                        \<lparr>st_installments_paid = installments_paid loan',
                         st_installments_remaining =
                           total_installments loan' - installments_paid loan',
                         st_amount_remaining = amount_remaining loan',
                         st_is_completed = (\<not> is_active loan'),
                         st_next_payment_date = next_payment_date loan'\<rparr>,
                      s\<lparr>bills := bs, loans := put_loan loan' (loans s)\<rparr>))))"

text \<open>
  The body of \<^verbatim>\<open>PUT /bills/<bill_id>/loan\<close>: a key is absent (\<open>None\<close>) or holds a value;
  \<^verbatim>\<open>notes\<close> may hold \<^verbatim>\<open>null\<close>.
\<close>

record update_request =
  upd_monthly_payment :: "jval option"
  upd_interest_rate :: "jval option"
  upd_notes :: "string option option"

text \<open>
  Lines 246-259 of \<^verbatim>\<open>update_loan_details\<close>, the body of its \<^verbatim>\<open>try\<close>: the loan and the
  bill as the assignments leave them, \<open>None\<close> when a conversion raises. The call of
  \<^verbatim>\<open>calculate_loan_details\<close> at line 258 is the specification's \<^verbatim>\<open>recompute\<close>.
\<close>

definition updated_rows ::
  "update_request \<Rightarrow> datetime \<Rightarrow> LoanDetails \<Rightarrow> Bill \<Rightarrow> (LoanDetails \<times> Bill) option" where
  "updated_rows data utcnow loan bill =
     (case (case upd_monthly_payment data of
              None \<Rightarrow> Some (loan, bill)
            | Some v \<Rightarrow>
                (case py_float v of
                   None \<Rightarrow> None
                 | Some x \<Rightarrow> Some (loan\<lparr>monthly_payment := x\<rparr>, bill\<lparr>amount := x\<rparr>))) of
        None \<Rightarrow> None
      | Some (loan1, bill1) \<Rightarrow>
          (case (case upd_interest_rate data of
                   None \<Rightarrow> Some loan1
                 | Some v \<Rightarrow>
                     (case py_float v of
                        None \<Rightarrow> None
                      | Some x \<Rightarrow> Some (loan1\<lparr>interest_rate := x\<rparr>))) of
             None \<Rightarrow> None
           | Some loan2 \<Rightarrow>
               (let loan3 = (case upd_notes data of
                               None \<Rightarrow> loan2
                             | Some n \<Rightarrow> loan2\<lparr>loan_notes := n\<rparr>);
                    loan4 = calculate_loan_details loan3;
                    loan5 = loan4\<lparr>updated_at := utcnow\<rparr>
                in Some (loan5, bill1))))"

text \<open>
  \<^verbatim>\<open>update_loan_details\<close> (loans.py, lines 228-270). An exception in the \<^verbatim>\<open>try\<close> gives 500
  and rolls back.
\<close>

definition update_loan_details ::
  "string \<Rightarrow> string \<Rightarrow> update_request \<Rightarrow> datetime \<Rightarrow> db \<Rightarrow> response \<times> db" where
  "update_loan_details uid bid data utcnow s =
     (case find_bill bid uid s of
        None \<Rightarrow> (Bill_not_found, s)
      | Some bill \<Rightarrow>
          (case find_loan bid s of
             None \<Rightarrow> (No_loan_details, s)
           | Some loan \<Rightarrow>
               (case updated_rows data utcnow loan bill of
                  None \<Rightarrow> (Failed, s)
                | Some (loan', bill') \<Rightarrow>
                    (Loan_updated,
                     s\<lparr>bills := put_bill bill' (bills s),
                       loans := put_loan loan' (loans s)\<rparr>))))"

subsection \<open>Sequences of requests\<close>

text \<open>
  The requests that write a loan, each with the arguments of its route, and the database
  after a list of them, served one after the other.
\<close>

datatype request =
    Create_loan string string loan_request datetime datetime
  | Record_payment string string "jval option" datetime datetime string
  | Update_loan string string update_request datetime

fun serve :: "request \<Rightarrow> db \<Rightarrow> db" where
  "serve (Create_loan uid bid data now utcnow) s =
     snd (create_loan_details uid bid data now utcnow s)"
| "serve (Record_payment uid bid data now now2 new_id) s =
     snd (record_loan_payment uid bid data now now2 new_id s)"
| "serve (Update_loan uid bid data utcnow) s =
     snd (update_loan_details uid bid data utcnow s)"

fun serve_all :: "db \<Rightarrow> request list \<Rightarrow> db" where
  "serve_all s [] = s"
| "serve_all s (r # rs) = serve_all (serve r s) rs"

subsection \<open>Example data\<close>

text \<open>
  The loan of the specification's examples (total 1200, 100 a month, 12 installments,
  started on 2025-01-01), the bill that owns it, and the request that creates it.
\<close>

definition jan_2025 :: datetime where
  "jan_2025 = \<lparr>year = 2025, month = 1, day = 1, time_of_day = 0\<rparr>"

definition example_loan :: LoanDetails where
  "example_loan = LoanDetails_init ''b1'' 1200 100 0 12 0 0 jan_2025 None jan_2025"

definition example_bill :: Bill where
  "example_bill =
     \<lparr>ident = ''b1'', user_id = ''u1'', name = ''Car loan'', amount = 100,
      due_date = jan_2025, category = ''loan'', frequency = ''monthly'', is_paid = False,
      bill_notes = None, enable_whatsapp = True, enable_call = False, enable_sms = False,
      enable_local_notification = True\<rparr>"

definition example_db :: db where
  "example_db = \<lparr>bills = [example_bill], loans = []\<rparr>"


text \<open>
  The database once the example loan is stored, the example loan after a single payment
  of 1200, which completes it, and the database holding that completed loan.
\<close>

definition example_loan_db :: db where
  "example_loan_db = \<lparr>bills = [example_bill], loans = [example_loan]\<rparr>"

definition completed_loan :: LoanDetails where
  "completed_loan = fst (make_payment example_loan (JInt 1200) jan_2025 jan_2025)"

definition completed_db :: db where
  "completed_db = \<lparr>bills = [example_bill], loans = [completed_loan]\<rparr>"

text \<open>
  The example loan after an edit from outside the routes has raised its \<^verbatim>\<open>total_amount\<close> to
  2000 and set its \<^verbatim>\<open>monthly_payment\<close> to 0, and the body of a \<^verbatim>\<open>PUT\<close> that sets
  \<^verbatim>\<open>monthly_payment\<close> to 0.
\<close>

definition edited_loan :: LoanDetails where
  "edited_loan = example_loan\<lparr>total_amount := 2000, monthly_payment := 0\<rparr>"

definition zero_payment_update :: update_request where
  "zero_payment_update =
     \<lparr>upd_monthly_payment = Some (JInt 0), upd_interest_rate = None, upd_notes = None\<rparr>"


subsection \<open>Properties of a loan row\<close>



section \<open>Verification\<close>

subsection \<open>What one payment and one recomputation change\<close>

lemma make_payment_fields:
  "installments_paid (fst (make_payment l a now now2)) = installments_paid l + 1"
  "total_paid (fst (make_payment l a now now2)) = total_paid l + amount_or a (monthly_payment l)"
  "total_amount (fst (make_payment l a now now2)) = total_amount l"
  "total_installments (fst (make_payment l a now now2)) = total_installments l"
  "monthly_payment (fst (make_payment l a now now2)) = monthly_payment l"
  "bill_id (fst (make_payment l a now now2)) = bill_id l"
  "loan_start_date (fst (make_payment l a now now2)) = loan_start_date l"
  "expected_completion_date (fst (make_payment l a now now2)) = expected_completion_date l"
  "amount_remaining (fst (make_payment l a now now2)) =
     Some (total_amount l - (total_paid l + amount_or a (monthly_payment l)))"
  "last_payment_date (fst (make_payment l a now now2)) = Some now"
  "next_payment_date (fst (make_payment l a now now2)) =
     Some (add_months (loan_start_date l) (installments_paid l + 1 + 1))"
  "payment_history (fst (make_payment l a now now2)) =
     payment_history l @
       [\<lparr>rec_installment_no = installments_paid l + 1,
         rec_amount = amount_or a (monthly_payment l),
         rec_date = now,
         rec_remaining = total_amount l - (total_paid l + amount_or a (monthly_payment l))\<rparr>]"
  "is_active (fst (make_payment l a now now2)) =
     (is_active l \<and> \<not> (total_installments l \<le> installments_paid l + 1 \<or>
        total_amount l - (total_paid l + amount_or a (monthly_payment l)) \<le> 0))"
  by (simp_all add: make_payment_def Let_def)

lemma make_payment_result:
  "snd (make_payment l a now now2) =
     \<lparr>res_installment_no = installments_paid l + 1,
      res_amount_paid = amount_or a (monthly_payment l),
      res_amount_remaining = total_amount l - (total_paid l + amount_or a (monthly_payment l)),
      res_is_completed = (\<not> is_active (fst (make_payment l a now now2)))\<rparr>"
  by (simp add: make_payment_def Let_def)

lemma amount_or_falsy: "\<not> truthy a \<Longrightarrow> amount_or a d = d"
  by (cases a) auto

lemma amount_or_nonzero: "d \<noteq> 0 \<Longrightarrow> amount_or a d \<noteq> 0"
  by (cases a) auto


lemma calculate_idem: "calculate_loan_details (calculate_loan_details l) = calculate_loan_details l"
  by (simp add: calculate_loan_details_def Let_def)

lemma example_loan_fields:
  "total_amount example_loan = 1200" "monthly_payment example_loan = 100"
  "total_installments example_loan = 12" "installments_paid example_loan = 0"
  "total_paid example_loan = 0" "is_active example_loan"
  "amount_remaining example_loan = Some 1200" "bill_id example_loan = ''b1''"
  by (simp_all add: example_loan_def LoanDetails_init_def calculate_loan_details_def Let_def)

lemma add_months_jan_2025:
  "add_months jan_2025 12 = jan_2025\<lparr>year := 2026\<rparr>"
  "add_months jan_2025 1 = jan_2025\<lparr>month := 2\<rparr>"
  by (simp_all add: add_months_def jan_2025_def days_in_month_def isleap_def Let_def)

lemma example_loan_dates:
  "loan_start_date example_loan = jan_2025"
  "expected_completion_date example_loan = Some (jan_2025\<lparr>year := 2026\<rparr>)"
  "next_payment_date example_loan = Some (jan_2025\<lparr>month := 2\<rparr>)"
  by (simp_all add: example_loan_def LoanDetails_init_def calculate_loan_details_def Let_def
        add_months_jan_2025)

lemma calculate_derived:
  "total_amount l \<noteq> 0 \<Longrightarrow> monthly_payment l \<noteq> 0 \<Longrightarrow>
     amount_remaining (calculate_loan_details l) = Some (total_amount l - total_paid l)"
  "total_amount l \<noteq> 0 \<Longrightarrow> monthly_payment l \<noteq> 0 \<Longrightarrow>
     next_payment_date (calculate_loan_details l) =
        Some (add_months (loan_start_date l) (installments_paid l + 1))"
  "total_amount l \<noteq> 0 \<Longrightarrow> monthly_payment l \<noteq> 0 \<Longrightarrow>
     expected_completion_date l = None \<Longrightarrow> total_installments l \<noteq> 0 \<Longrightarrow>
     expected_completion_date (calculate_loan_details l) =
           Some (add_months (loan_start_date l) (total_installments l))"
  by (simp_all add: calculate_loan_details_def Let_def)

lemma calculate_keeps_completion_date:
  "expected_completion_date l = Some e \<Longrightarrow>
     expected_completion_date (calculate_loan_details l) = Some e"
  by (simp add: calculate_loan_details_def Let_def)

subsection \<open>C2: when a loan becomes inactive\<close>

text \<open>
  C2: after a payment on an active loan (the only loans \<^verbatim>\<open>record_loan_payment\<close> lets through
  to \<^verbatim>\<open>make_payment\<close>), the loan is inactive if and only if \<^verbatim>\<open>installments_paid\<close> has reached
  \<^verbatim>\<open>total_installments\<close> or \<^verbatim>\<open>amount_remaining\<close> is at most 0. In particular a single payment
  of 1200 on a fresh loan of 1200 in 12 installments gives \<^verbatim>\<open>installments_paid\<close> 1,
  \<^verbatim>\<open>amount_remaining\<close> 0 and an inactive loan.
\<close>

theorem completion_check:
  "(is_active l \<and> make_payment l amt now now2 = (l', r) \<longrightarrow>
      amount_remaining l' = Some (res_amount_remaining r) \<and>
      (\<not> is_active l') =
        (installments_paid l' \<ge> total_installments l' \<or> res_amount_remaining r \<le> 0)) \<and>
   (is_active l \<and> total_installments l = 12 \<and> total_amount l = 1200 \<and>
    installments_paid l = 0 \<and> total_paid l = 0 \<and>
    make_payment l (JInt 1200) now now2 = (l', r) \<longrightarrow>
      installments_paid l' = 1 \<and> amount_remaining l' = Some 0 \<and> \<not> is_active l')"
proof -
  have "amount_remaining l' = Some (res_amount_remaining r) \<and>
      (\<not> is_active l') =
        (installments_paid l' \<ge> total_installments l' \<or> res_amount_remaining r \<le> 0)"
    if "is_active l" and mp: "make_payment l amt now now2 = (l', r)"
  proof -
    have l': "l' = fst (make_payment l amt now now2)"
      and r: "r = snd (make_payment l amt now now2)"
      using mp by simp_all
    show ?thesis
      using that(1) by (simp add: l' r make_payment_fields make_payment_result)
  qed
  moreover have "installments_paid l' = 1 \<and> amount_remaining l' = Some 0 \<and> \<not> is_active l'"
    if "is_active l" "total_installments l = 12" "total_amount l = 1200"
      "installments_paid l = 0" "total_paid l = 0"
      and mp: "make_payment l (JInt 1200) now now2 = (l', r)"
  proof -
    have l': "l' = fst (make_payment l (JInt 1200) now now2)"
      using mp by simp
    show ?thesis
      using that(1-5) by (simp add: l' make_payment_fields)
  qed
  ultimately show ?thesis by blast
qed

theorem completion_check_witness:
  "is_active example_loan \<and>
   installments_paid (fst (make_payment example_loan (JInt 1200) jan_2025 jan_2025)) = 1 \<and>
   amount_remaining (fst (make_payment example_loan (JInt 1200) jan_2025 jan_2025)) = Some 0 \<and>
   \<not> is_active (fst (make_payment example_loan (JInt 1200) jan_2025 jan_2025))"
  using completion_check [of example_loan "JInt 1200" jan_2025 jan_2025
      "fst (make_payment example_loan (JInt 1200) jan_2025 jan_2025)"
      "snd (make_payment example_loan (JInt 1200) jan_2025 jan_2025)"]
  by (simp add: example_loan_fields make_payment_fields make_payment_result)

subsection \<open>The loan table under the routes\<close>

lemma find_append_first:
  "find P (xs @ ys) = (case find P xs of None \<Rightarrow> find P ys | Some x \<Rightarrow> Some x)"
  by (induction xs) auto

lemma find_put_loan:
  "find (\<lambda>x. bill_id x = k) (put_loan l ls) =
     (if bill_id l = k
      then (case find (\<lambda>x. bill_id x = k) ls of None \<Rightarrow> None | Some x \<Rightarrow> Some l)
      else find (\<lambda>x. bill_id x = k) ls)"
  by (induction ls) (auto simp add: put_loan_def)

lemma find_loan_bill_id: "find_loan k s = Some l \<Longrightarrow> bill_id l = k"
  by (auto simp add: find_loan_def find_Some_iff)

lemma find_bill_keys: "find_bill bid uid s = Some b \<Longrightarrow> ident b = bid \<and> user_id b = uid"
  by (auto simp add: find_bill_def find_Some_iff)

lemma updated_rows_fields:
  assumes "updated_rows d t l b = Some (l', b')"
  shows "bill_id l' = bill_id l" "installments_paid l' = installments_paid l"
    "total_installments l' = total_installments l" "is_active l' = is_active l"
    "total_amount l' = total_amount l" "total_paid l' = total_paid l"
    "amount_remaining l' = amount_remaining l \<or>
       amount_remaining l' = Some (total_amount l - total_paid l)"
    "expected_completion_date l = Some e \<Longrightarrow> expected_completion_date l' = Some e"
  using assms
  by (auto simp add: updated_rows_def calculate_loan_details_def Let_def
      split: option.splits if_splits)

lemma create_keeps_loan:
  "find_loan k s = Some l \<Longrightarrow>
   find_loan k (snd (create_loan_details uid bid data now utcnow s)) = Some l"
  by (auto simp add: create_loan_details_def find_loan_def Let_def find_append_first
      split: option.splits)

lemma record_loans:
  "loans (snd (record_loan_payment uid bid data now now2 new_id s)) =
     (case find_bill bid uid s of
        None \<Rightarrow> loans s
      | Some bill \<Rightarrow>
          (case find_loan bid s of
             None \<Rightarrow> loans s
           | Some loan \<Rightarrow>
               if is_active loan
               then put_loan (fst (make_payment loan
                                     (case data of None \<Rightarrow> JNull | Some v \<Rightarrow> v) now now2))
                      (loans s)
               else loans s))"
  by (simp add: record_loan_payment_def Let_def split: option.splits prod.splits)

lemma update_loans:
  "loans (snd (update_loan_details uid bid data utcnow s)) =
     (case find_bill bid uid s of
        None \<Rightarrow> loans s
      | Some bill \<Rightarrow>
          (case find_loan bid s of
             None \<Rightarrow> loans s
           | Some loan \<Rightarrow>
               (case updated_rows data utcnow loan bill of
                  None \<Rightarrow> loans s
                | Some (loan', bill') \<Rightarrow> put_loan loan' (loans s))))"
  by (simp add: update_loan_details_def split: option.splits prod.splits)

lemma serve_rel:
  assumes refl: "\<And>l. R l l"
    and pay: "\<And>l a n n2. is_active l \<Longrightarrow> R l (fst (make_payment l a n n2))"
    and upd: "\<And>l d t b l' b'. updated_rows d t l b = Some (l', b') \<Longrightarrow> R l l'"
    and found: "find_loan k s = Some l"
  shows "\<exists>l'. find_loan k (serve r s) = Some l' \<and> R l l'"
proof (cases r)
  case (Create_loan uid bid data now utcnow)
  then show ?thesis
    using found refl by (simp add: create_keeps_loan)
next
  case (Record_payment uid bid data now now2 new_id)
  have k: "bill_id l = k" using found by (rule find_loan_bill_id)
  show ?thesis
  proof (cases "find_bill bid uid s")
    case None
    then show ?thesis using Record_payment found refl
      by (simp add: find_loan_def record_loans)
  next
    case (Some bill)
    show ?thesis
    proof (cases "find_loan bid s")
      case None
      then show ?thesis using Record_payment Some found refl
        by (simp add: find_loan_def record_loans)
    next
      case loan: (Some loan)
      have b: "bill_id loan = bid" using loan by (rule find_loan_bill_id)
      show ?thesis
      proof (cases "is_active loan")
        case False
        then show ?thesis using Record_payment Some loan found refl
          by (simp add: find_loan_def record_loans)
      next
        case True
        show ?thesis
        proof (cases "bid = k")
          case same: True
          then have "loan = l" using loan found by simp
          then show ?thesis using Record_payment Some loan found True same k pay
            by (simp add: find_loan_def record_loans find_put_loan make_payment_fields)
        next
          case False
          then show ?thesis using Record_payment Some loan found True b refl
            by (simp add: find_loan_def record_loans find_put_loan make_payment_fields)
        qed
      qed
    qed
  qed
next
  case (Update_loan uid bid data utcnow)
  have k: "bill_id l = k" using found by (rule find_loan_bill_id)
  show ?thesis
  proof (cases "find_bill bid uid s")
    case None
    then show ?thesis using Update_loan found refl
      by (simp add: find_loan_def update_loans)
  next
    case (Some bill)
    show ?thesis
    proof (cases "find_loan bid s")
      case None
      then show ?thesis using Update_loan Some found refl
        by (simp add: find_loan_def update_loans)
    next
      case loan: (Some loan)
      have b: "bill_id loan = bid" using loan by (rule find_loan_bill_id)
      show ?thesis
      proof (cases "updated_rows data utcnow loan bill")
        case None
        then show ?thesis using Update_loan Some loan found refl
          by (simp add: find_loan_def update_loans)
      next
        case rows: (Some p)
        obtain loan' bill' where p: "p = (loan', bill')" by (cases p)
        have b': "bill_id loan' = bid"
          using rows p b updated_rows_fields(1) by metis
        show ?thesis
        proof (cases "bid = k")
          case same: True
          then have "loan = l" using loan found by simp
          then show ?thesis using Update_loan Some loan found rows p same b' upd
            by (simp add: find_loan_def update_loans find_put_loan)
        next
          case False
          then show ?thesis using Update_loan Some loan found rows p b' refl
            by (simp add: find_loan_def update_loans find_put_loan)
        qed
      qed
    qed
  qed
qed

lemma serve_all_rel:
  assumes refl: "\<And>l. R l l"
    and trans: "\<And>l l' l''. R l l' \<Longrightarrow> R l' l'' \<Longrightarrow> R l l''"
    and pay: "\<And>l a n n2. is_active l \<Longrightarrow> R l (fst (make_payment l a n n2))"
    and upd: "\<And>l d t b l' b'. updated_rows d t l b = Some (l', b') \<Longrightarrow> R l l'"
  shows "find_loan k s = Some l \<Longrightarrow> \<exists>l'. find_loan k (serve_all s rs) = Some l' \<and> R l l'"
proof (induction rs arbitrary: s l)
  case Nil
  then show ?case using refl by simp
next
  case (Cons r rs)
  have "\<exists>l1. find_loan k (serve r s) = Some l1 \<and> R l l1"
  proof (rule serve_rel [where R = R])
    show "R x x" for x by (rule refl)
    show "R x (fst (make_payment x a n n2))" if "is_active x" for x a n n2
      using that by (rule pay)
    show "R x x'" if "updated_rows d t x b = Some (x', b')" for x d t b x' b'
      using that by (rule upd)
    show "find_loan k s = Some l" by (rule Cons.prems)
  qed
  then obtain l1 where l1: "find_loan k (serve r s) = Some l1" "R l l1"
    by blast
  obtain l2 where "find_loan k (serve_all (serve r s) rs) = Some l2" "R l1 l2"
    using Cons.IH [OF l1(1)] by blast
  then show ?case using l1(2) trans by auto
qed

lemma example_loan_db_find:
  "find_bill ''b1'' ''u1'' example_loan_db = Some example_bill"
  "find_loan ''b1'' example_loan_db = Some example_loan"
  by (simp_all add: find_bill_def find_loan_def example_loan_db_def example_bill_def
      example_loan_fields)

lemma completed_loan_fields:
  "\<not> is_active completed_loan" "bill_id completed_loan = ''b1''"
  "installments_paid completed_loan = 1" "amount_remaining completed_loan = Some 0"
  by (simp_all add: completed_loan_def make_payment_fields example_loan_fields)

lemma completed_db_find:
  "find_bill ''b1'' ''u1'' completed_db = Some example_bill"
  "find_loan ''b1'' completed_db = Some completed_loan"
  by (simp_all add: find_bill_def find_loan_def completed_db_def example_bill_def
      completed_loan_fields)

subsection \<open>C7: progress is one-way\<close>

text \<open>
  C7: across every sequence of requests to the loan routes (creating a loan, updating one
  with its recomputation, recording a payment with the bill of the next month), the
  \<^verbatim>\<open>installments_paid\<close> of a stored loan never decreases, and a loan that is inactive stays
  inactive: \<^verbatim>\<open>is_active\<close> goes from true to false at most once and never back.
\<close>

theorem loan_progress_monotone:
  "find_loan k s = Some l \<Longrightarrow>
   \<exists>l'. find_loan k (serve_all s rs) = Some l' \<and>
        installments_paid l \<le> installments_paid l' \<and>
        (\<not> is_active l \<longrightarrow> \<not> is_active l')"
proof (rule serve_all_rel
    [where R = "\<lambda>x y. installments_paid x \<le> installments_paid y \<and>
                        (\<not> is_active x \<longrightarrow> \<not> is_active y)"])
  show "installments_paid x \<le> installments_paid x \<and> (\<not> is_active x \<longrightarrow> \<not> is_active x)" for x
    by simp
  show "installments_paid x \<le> installments_paid z \<and> (\<not> is_active x \<longrightarrow> \<not> is_active z)"
    if "installments_paid x \<le> installments_paid y \<and> (\<not> is_active x \<longrightarrow> \<not> is_active y)"
      and "installments_paid y \<le> installments_paid z \<and> (\<not> is_active y \<longrightarrow> \<not> is_active z)"
    for x y z
    using that by auto
  show "installments_paid x \<le> installments_paid (fst (make_payment x a n n2)) \<and>
        (\<not> is_active x \<longrightarrow> \<not> is_active (fst (make_payment x a n n2)))"
    for x a n n2
    by (simp add: make_payment_fields)
  show "installments_paid x \<le> installments_paid x' \<and> (\<not> is_active x \<longrightarrow> \<not> is_active x')"
    if "updated_rows d t x b = Some (x', b')" for x d t b x' b'
    using updated_rows_fields(2,4) [OF that] by simp
qed

theorem loan_progress_monotone_witness:
  "find_loan ''b1'' example_loan_db = Some example_loan \<and>
   (\<exists>l'. find_loan ''b1''
           (serve_all example_loan_db
              [Record_payment ''u1'' ''b1'' None jan_2025 jan_2025 ''b2'']) = Some l' \<and>
         installments_paid example_loan \<le> installments_paid l')"
  using loan_progress_monotone [of "''b1''" example_loan_db example_loan
      "[Record_payment ''u1'' ''b1'' None jan_2025 jan_2025 ''b2'']"]
  by (auto simp add: example_loan_db_find)

subsection \<open>C6: a payment on a completed loan\<close>

text \<open>
  C6: for every stored loan with \<^verbatim>\<open>is_active\<close> false, \<^verbatim>\<open>record_loan_payment\<close> answers 400,
  "This loan is already completed", and leaves the database, and so every field of the
  loan, as it was.
\<close>

theorem payment_on_completed_loan_rejected:
  "find_bill bid uid s = Some bill \<Longrightarrow> find_loan bid s = Some loan \<Longrightarrow> \<not> is_active loan \<Longrightarrow>
   record_loan_payment uid bid data now now2 new_id s = (Loan_completed, s) \<and>
   status_code Loan_completed = 400 \<and>
   find_loan bid (snd (record_loan_payment uid bid data now now2 new_id s)) = Some loan"
  by (simp add: record_loan_payment_def)

theorem payment_on_completed_loan_rejected_witness:
  "find_bill ''b1'' ''u1'' completed_db = Some example_bill \<and>
   find_loan ''b1'' completed_db = Some completed_loan \<and>
   \<not> is_active completed_loan \<and>
   record_loan_payment ''u1'' ''b1'' (Some (JInt 100)) jan_2025 jan_2025 ''b2'' completed_db =
     (Loan_completed, completed_db)"
  using payment_on_completed_loan_rejected [of "''b1''" "''u1''" completed_db example_bill
      completed_loan "Some (JInt 100)" jan_2025 jan_2025 "''b2''"]
  by (simp add: completed_db_find completed_loan_fields)

subsection \<open>What creating a loan stores\<close>











subsection \<open>A payment through the route\<close>

lemma amount_or_truthy_nonzero: "truthy a \<Longrightarrow> amount_or a d \<noteq> 0"
  by (cases a) auto

lemma amount_or_zero_iff: "amount_or a d = 0 \<longleftrightarrow> \<not> truthy a \<and> d = 0"
  by (cases a) auto

lemma record_payment_active:
  assumes "find_bill bid uid s = Some bill" "find_loan bid s = Some l" "is_active l"
  shows "\<exists>st s'. record_loan_payment uid bid data now now2 new_id s =
           (Payment_recorded
              (snd (make_payment l (case data of None \<Rightarrow> JNull | Some v \<Rightarrow> v) now now2)) st, s') \<and>
         find_loan bid s' =
           Some (fst (make_payment l (case data of None \<Rightarrow> JNull | Some v \<Rightarrow> v) now now2))"
proof -
  let ?mp = "make_payment l (case data of None \<Rightarrow> JNull | Some v \<Rightarrow> v) now now2"
  have b: "bill_id l = bid" using assms(2) by (rule find_loan_bill_id)
  have "find_loan bid (snd (record_loan_payment uid bid data now now2 new_id s)) = Some (fst ?mp)"
    using assms b by (simp add: find_loan_def record_loans find_put_loan make_payment_fields)
  moreover have "\<exists>st. fst (record_loan_payment uid bid data now now2 new_id s) =
      Payment_recorded (snd ?mp) st"
    using assms by (simp add: record_loan_payment_def Let_def split: prod.splits)
  ultimately show ?thesis
    by (metis prod.collapse)
qed

lemma record_payment_falsy:
  "\<not> truthy v \<Longrightarrow>
   record_loan_payment uid bid (Some v) now now2 new_id s =
   record_loan_payment uid bid None now now2 new_id s"
proof -
  assume "\<not> truthy v"
  then have "make_payment l v now now2 = make_payment l JNull now now2" for l
    by (simp add: make_payment_def amount_or_falsy)
  then show ?thesis
    by (simp add: record_loan_payment_def Let_def split: option.splits)
qed

subsection \<open>C1: the effect of a payment\<close>

text \<open>
  C1, as stated, says that for every active loan \<^verbatim>\<open>record_payment\<close> with an explicitly passed
  amount uses exactly that amount. It does not for the explicit amount 0: the stored
  example loan is active, and a request with \<^verbatim>\<open>amount\<close> 0 records a payment of the monthly
  100 and raises \<^verbatim>\<open>total_paid\<close> by 100, not by 0.
\<close>

theorem record_payment_explicit_zero_counterexample:
  "map_option is_active (find_loan ''b1'' example_loan_db) = Some True \<and>
   map_option payment_history (find_loan ''b1''
       (snd (record_loan_payment ''u1'' ''b1'' (Some (JInt 0)) jan_2025 jan_2025 ''b2''
               example_loan_db))) =
     Some [\<lparr>rec_installment_no = 1, rec_amount = 100, rec_date = jan_2025,
            rec_remaining = 1100\<rparr>] \<and>
   map_option total_paid (find_loan ''b1''
       (snd (record_loan_payment ''u1'' ''b1'' (Some (JInt 0)) jan_2025 jan_2025 ''b2''
               example_loan_db))) = Some 100"
  by code_simp

text \<open>
  C1, amended: for every active loan, \<^verbatim>\<open>record_payment\<close> with the amount omitted uses
  \<^verbatim>\<open>monthly_payment\<close>, with an explicitly passed amount other than zero uses exactly that
  amount, and with an explicit amount of 0 (or any other falsy amount) uses
  \<^verbatim>\<open>monthly_payment\<close>. It then adds 1 to \<^verbatim>\<open>installments_paid\<close>, adds the payment amount to
  \<^verbatim>\<open>total_paid\<close>, sets \<^verbatim>\<open>amount_remaining\<close> to \<^verbatim>\<open>total_amount\<close> minus \<^verbatim>\<open>total_paid\<close>, sets
  \<^verbatim>\<open>last_payment_date\<close>, appends exactly one record (installment number, amount, date,
  remaining) to \<^verbatim>\<open>payment_history\<close>, sets \<^verbatim>\<open>next_payment_date\<close> to \<^verbatim>\<open>loan_start_date\<close> plus
  \<^verbatim>\<open>installments_paid\<close> + 1 months, and returns the installment number, the amount paid, the
  amount remaining and whether the loan is completed. Stated of \<^verbatim>\<open>record_loan_payment\<close> on a
  bill of the user whose stored loan is active: the answer carries the result of
  \<^verbatim>\<open>make_payment\<close> and the loan stored afterwards is the one \<^verbatim>\<open>make_payment\<close> leaves.
\<close>

theorem record_payment_effect:
  "find_bill bid uid s = Some bill \<Longrightarrow> find_loan bid s = Some l \<Longrightarrow> is_active l \<Longrightarrow>
   \<exists>l' r st s'.
     record_loan_payment uid bid data now now2 new_id s = (Payment_recorded r st, s') \<and>
     find_loan bid s' = Some l' \<and>
     make_payment l (case data of None \<Rightarrow> JNull | Some v \<Rightarrow> v) now now2 = (l', r) \<and>
     (data = None \<longrightarrow> res_amount_paid r = monthly_payment l) \<and>
     (\<forall>i. data = Some (JInt i) \<and> i \<noteq> 0 \<longrightarrow> res_amount_paid r = of_int i) \<and>
     (\<forall>x. data = Some (JFloat x) \<and> x \<noteq> 0 \<longrightarrow> res_amount_paid r = x) \<and>
     (\<forall>v. data = Some v \<and> \<not> truthy v \<longrightarrow> res_amount_paid r = monthly_payment l) \<and>
     installments_paid l' = installments_paid l + 1 \<and>
     total_paid l' = total_paid l + res_amount_paid r \<and>
     total_amount l' = total_amount l \<and>
     amount_remaining l' = Some (total_amount l' - total_paid l') \<and>
     last_payment_date l' = Some now \<and>
     payment_history l' =
       payment_history l @
         [\<lparr>rec_installment_no = installments_paid l', rec_amount = res_amount_paid r,
           rec_date = now, rec_remaining = total_amount l' - total_paid l'\<rparr>] \<and>
     next_payment_date l' = Some (add_months (loan_start_date l) (installments_paid l' + 1)) \<and>
     r = \<lparr>res_installment_no = installments_paid l', res_amount_paid = res_amount_paid r,
          res_amount_remaining = total_amount l' - total_paid l',
          res_is_completed = (\<not> is_active l')\<rparr>"
proof -
  assume a: "find_bill bid uid s = Some bill" "find_loan bid s = Some l" "is_active l"
  let ?amt = "case data of None \<Rightarrow> JNull | Some v \<Rightarrow> v"
  let ?l' = "fst (make_payment l ?amt now now2)"
  let ?r = "snd (make_payment l ?amt now now2)"
  obtain st s' where rt:
    "record_loan_payment uid bid data now now2 new_id s = (Payment_recorded ?r st, s')"
    "find_loan bid s' = Some ?l'"
    using record_payment_active [OF a] by blast
  have paid: "res_amount_paid ?r = amount_or ?amt (monthly_payment l)"
    by (simp add: make_payment_result)
  have amounts:
    "(data = None \<longrightarrow> res_amount_paid ?r = monthly_payment l) \<and>
     (\<forall>i. data = Some (JInt i) \<and> i \<noteq> 0 \<longrightarrow> res_amount_paid ?r = of_int i) \<and>
     (\<forall>x. data = Some (JFloat x) \<and> x \<noteq> 0 \<longrightarrow> res_amount_paid ?r = x) \<and>
     (\<forall>v. data = Some v \<and> \<not> truthy v \<longrightarrow> res_amount_paid ?r = monthly_payment l)"
    unfolding paid by (auto simp add: amount_or_falsy)
  have fields:
    "installments_paid ?l' = installments_paid l + 1 \<and>
     total_paid ?l' = total_paid l + res_amount_paid ?r \<and>
     total_amount ?l' = total_amount l \<and>
     amount_remaining ?l' = Some (total_amount ?l' - total_paid ?l') \<and>
     last_payment_date ?l' = Some now \<and>
     payment_history ?l' =
       payment_history l @
         [\<lparr>rec_installment_no = installments_paid ?l', rec_amount = res_amount_paid ?r,
           rec_date = now, rec_remaining = total_amount ?l' - total_paid ?l'\<rparr>] \<and>
     next_payment_date ?l' = Some (add_months (loan_start_date l) (installments_paid ?l' + 1)) \<and>
     ?r = \<lparr>res_installment_no = installments_paid ?l', res_amount_paid = res_amount_paid ?r,
          res_amount_remaining = total_amount ?l' - total_paid ?l',
          res_is_completed = (\<not> is_active ?l')\<rparr>"
    unfolding paid by (simp add: make_payment_fields make_payment_result)
  have "make_payment l ?amt now now2 = (?l', ?r)" by simp
  with rt amounts fields show ?thesis by blast
qed

theorem record_payment_effect_witness:
  "find_bill ''b1'' ''u1'' example_loan_db = Some example_bill \<and>
   find_loan ''b1'' example_loan_db = Some example_loan \<and> is_active example_loan \<and>
   (\<exists>l' r st s'.
      record_loan_payment ''u1'' ''b1'' (Some (JInt 250)) jan_2025 jan_2025 ''b2''
        example_loan_db = (Payment_recorded r st, s') \<and>
      find_loan ''b1'' s' = Some l' \<and> res_amount_paid r = 250 \<and>
      installments_paid l' = 1 \<and> total_paid l' = 250)"
proof -
  have h: "find_bill ''b1'' ''u1'' example_loan_db = Some example_bill"
    "find_loan ''b1'' example_loan_db = Some example_loan" "is_active example_loan"
    by (simp_all add: example_loan_db_find example_loan_fields)
  show ?thesis
    using record_payment_effect [OF h, of "Some (JInt 250)" jan_2025 jan_2025 "''b2''"] h
    by (fastforce simp add: example_loan_fields)
qed

subsection \<open>C10: a falsy amount is the default amount\<close>

text \<open>
  C10, as stated, concludes that no zero-amount payment can be recorded. One can: a
  \<^verbatim>\<open>PUT\<close> with \<^verbatim>\<open>monthly_payment\<close> 0 is stored unchecked and leaves the example loan active, and
  a payment with the explicit amount 0 then records the amount 0 as installment 1.
\<close>

theorem zero_amount_payment_counterexample:
  "map_option is_active (find_loan ''b1''
       (serve_all example_loan_db [Update_loan ''u1'' ''b1'' zero_payment_update jan_2025])) =
     Some True \<and>
   map_option payment_history (find_loan ''b1''
       (serve_all example_loan_db
          [Update_loan ''u1'' ''b1'' zero_payment_update jan_2025,
           Record_payment ''u1'' ''b1'' (Some (JInt 0)) jan_2025 jan_2025 ''b2''])) =
     Some [\<lparr>rec_installment_no = 1, rec_amount = 0, rec_date = jan_2025,
            rec_remaining = 1200\<rparr>] \<and>
   map_option installments_paid (find_loan ''b1''
       (serve_all example_loan_db
          [Update_loan ''u1'' ''b1'' zero_payment_update jan_2025,
           Record_payment ''u1'' ''b1'' (Some (JInt 0)) jan_2025 jan_2025 ''b2''])) = Some 1"
  by code_simp

text \<open>
  C10, amended: for every active loan, \<^verbatim>\<open>record_payment\<close> called with an explicit amount of 0
  (or any falsy amount) behaves exactly as if the amount had been omitted: the answer and
  the database are the same, the recorded payment amount is \<^verbatim>\<open>monthly_payment\<close> and
  \<^verbatim>\<open>total_paid\<close> grows by \<^verbatim>\<open>monthly_payment\<close>. A payment of amount zero is recorded exactly when
  the amount is falsy or omitted and the loan's \<^verbatim>\<open>monthly_payment\<close> is itself 0; for a loan
  whose \<^verbatim>\<open>monthly_payment\<close> is not zero it cannot happen.
\<close>

theorem falsy_amount_is_default:
  "find_bill bid uid s = Some bill \<Longrightarrow> find_loan bid s = Some l \<Longrightarrow> is_active l \<Longrightarrow>
   \<not> truthy v \<Longrightarrow>
   record_loan_payment uid bid (Some v) now now2 new_id s =
     record_loan_payment uid bid None now now2 new_id s \<and>
   make_payment l v now now2 = make_payment l JNull now now2 \<and>
   (\<exists>l' r st s'.
      record_loan_payment uid bid (Some v) now now2 new_id s = (Payment_recorded r st, s') \<and>
      find_loan bid s' = Some l' \<and>
      res_amount_paid r = monthly_payment l \<and>
      rec_amount (last (payment_history l')) = monthly_payment l \<and>
      total_paid l' = total_paid l + monthly_payment l) \<and>
   \<not> truthy (JInt 0) \<and> \<not> truthy (JFloat 0) \<and> \<not> truthy (JBool False) \<and> \<not> truthy JNull \<and>
   (\<forall>amt. res_amount_paid (snd (make_payment l amt now now2)) = 0 \<longleftrightarrow>
            \<not> truthy amt \<and> monthly_payment l = 0)"
proof -
  assume a: "find_bill bid uid s = Some bill" "find_loan bid s = Some l" "is_active l"
    and v: "\<not> truthy v"
  let ?l' = "fst (make_payment l v now now2)"
  let ?r = "snd (make_payment l v now now2)"
  have same: "record_loan_payment uid bid (Some v) now now2 new_id s =
      record_loan_payment uid bid None now now2 new_id s"
    using v by (rule record_payment_falsy)
  have mp: "make_payment l v now now2 = make_payment l JNull now now2"
    using v by (simp add: make_payment_def amount_or_falsy)
  obtain st s' where rt:
    "record_loan_payment uid bid (Some v) now now2 new_id s = (Payment_recorded ?r st, s')"
    "find_loan bid s' = Some ?l'"
    using record_payment_active [OF a, of "Some v" now now2 new_id] by auto
  have f: "res_amount_paid ?r = monthly_payment l"
    "rec_amount (last (payment_history ?l')) = monthly_payment l"
    "total_paid ?l' = total_paid l + monthly_payment l"
    using v by (simp_all add: make_payment_fields make_payment_result amount_or_falsy)
  have z: "\<forall>amt. res_amount_paid (snd (make_payment l amt now now2)) = 0 \<longleftrightarrow>
            \<not> truthy amt \<and> monthly_payment l = 0"
    by (simp add: make_payment_result amount_or_zero_iff)
  have ex: "\<exists>l' r st s'.
      record_loan_payment uid bid (Some v) now now2 new_id s = (Payment_recorded r st, s') \<and>
      find_loan bid s' = Some l' \<and>
      res_amount_paid r = monthly_payment l \<and>
      rec_amount (last (payment_history l')) = monthly_payment l \<and>
      total_paid l' = total_paid l + monthly_payment l"
    using rt f by blast
  have t: "\<not> truthy (JInt 0) \<and> \<not> truthy (JFloat 0) \<and> \<not> truthy (JBool False) \<and> \<not> truthy JNull"
    by simp
  from same mp ex t z show ?thesis by blast
qed

theorem falsy_amount_is_default_witness:
  "find_bill ''b1'' ''u1'' example_loan_db = Some example_bill \<and>
   find_loan ''b1'' example_loan_db = Some example_loan \<and> is_active example_loan \<and>
   \<not> truthy (JInt 0) \<and>
   record_loan_payment ''u1'' ''b1'' (Some (JInt 0)) jan_2025 jan_2025 ''b2'' example_loan_db =
     record_loan_payment ''u1'' ''b1'' None jan_2025 jan_2025 ''b2'' example_loan_db \<and>
   res_amount_paid (snd (make_payment example_loan (JInt 0) jan_2025 jan_2025)) \<noteq> 0"
proof -
  have h: "find_bill ''b1'' ''u1'' example_loan_db = Some example_bill"
    "find_loan ''b1'' example_loan_db = Some example_loan" "is_active example_loan"
    "\<not> truthy (JInt 0)"
    by (simp_all add: example_loan_db_find example_loan_fields)
  show ?thesis
    using falsy_amount_is_default [OF h, of jan_2025 jan_2025 "''b2''"] h
    by (simp add: example_loan_fields)
qed

subsection \<open>C8: recomputation\<close>

lemma edited_loan_fields:
  "total_amount edited_loan = 2000" "monthly_payment edited_loan = 0"
  "total_paid edited_loan = 0" "amount_remaining edited_loan = Some 1200"
  by (simp_all add: edited_loan_def example_loan_fields)

lemma calculate_guard:
  "total_amount l = 0 \<or> monthly_payment l = 0 \<Longrightarrow> calculate_loan_details l = l"
  by (auto simp add: calculate_loan_details_def)

text \<open>
  C8, as stated, says that the recomputation re-derives \<^verbatim>\<open>amount_remaining\<close> and
  \<^verbatim>\<open>next_payment_date\<close>. On a loan whose \<^verbatim>\<open>monthly_payment\<close> is 0 it changes nothing: after an
  edit of \<^verbatim>\<open>total_amount\<close> to 2000 with nothing paid, \<^verbatim>\<open>amount_remaining\<close> stays at the old
  1200.
\<close>

theorem recompute_not_rederived_counterexample:
  "amount_remaining (calculate_loan_details edited_loan) = Some 1200 \<and>
   total_amount edited_loan - total_paid edited_loan = 2000 \<and>
   calculate_loan_details edited_loan = edited_loan"
  by (simp add: calculate_guard edited_loan_fields)

text \<open>
  C8, amended: \<^verbatim>\<open>calculate_loan_details\<close> is a function of the loan row alone and is
  idempotent. When \<^verbatim>\<open>total_amount\<close> and \<^verbatim>\<open>monthly_payment\<close> are both non-zero it re-derives
  \<^verbatim>\<open>amount_remaining\<close> and \<^verbatim>\<open>next_payment_date\<close>, and it sets \<^verbatim>\<open>expected_completion_date\<close>
  (\<^verbatim>\<open>loan_start_date\<close> plus \<^verbatim>\<open>total_installments\<close> months) only when that date is unset; when
  \<^verbatim>\<open>total_amount\<close> or \<^verbatim>\<open>monthly_payment\<close> is zero it changes no field. A date that is set is
  changed neither by the recomputation nor by a payment.
\<close>

theorem recompute_idempotent:
  "calculate_loan_details (calculate_loan_details l) = calculate_loan_details l \<and>
   (total_amount l \<noteq> 0 \<and> monthly_payment l \<noteq> 0 \<longrightarrow>
      amount_remaining (calculate_loan_details l) = Some (total_amount l - total_paid l) \<and>
      next_payment_date (calculate_loan_details l) =
        Some (add_months (loan_start_date l) (installments_paid l + 1)) \<and>
      (expected_completion_date l = None \<and> total_installments l \<noteq> 0 \<longrightarrow>
         expected_completion_date (calculate_loan_details l) =
           Some (add_months (loan_start_date l) (total_installments l)))) \<and>
   (total_amount l = 0 \<or> monthly_payment l = 0 \<longrightarrow> calculate_loan_details l = l) \<and>
   (\<forall>e. expected_completion_date l = Some e \<longrightarrow>
      expected_completion_date (calculate_loan_details l) = Some e) \<and>
   expected_completion_date (fst (make_payment l amt now now2)) = expected_completion_date l"
  using calculate_idem [of l] calculate_derived [of l] calculate_keeps_completion_date [of l]
    make_payment_fields(8) [of l amt now now2] calculate_guard [of l]
  by blast

theorem recompute_idempotent_witness:
  "total_amount example_loan \<noteq> 0 \<and> monthly_payment example_loan \<noteq> 0 \<and>
   expected_completion_date example_loan = Some (jan_2025\<lparr>year := 2026\<rparr>) \<and>
   calculate_loan_details (calculate_loan_details example_loan) =
     calculate_loan_details example_loan \<and>
   amount_remaining (calculate_loan_details example_loan) = Some 1200 \<and>
   expected_completion_date (calculate_loan_details example_loan) =
     Some (jan_2025\<lparr>year := 2026\<rparr>) \<and>
   monthly_payment edited_loan = 0 \<and> calculate_loan_details edited_loan = edited_loan"
  using recompute_idempotent [of example_loan JNull jan_2025 jan_2025]
    recompute_idempotent [of edited_loan JNull jan_2025 jan_2025]
  by (simp add: example_loan_fields example_loan_dates edited_loan_fields)

subsection \<open>When creating a loan succeeds\<close>

lemma py_float_None: "py_float v = None \<longleftrightarrow> v = JNull"
  by (cases v) auto

lemma py_int_None: "py_int v = None \<longleftrightarrow> v = JNull"
  by (cases v) auto





lemma get_or_zero_float_None: "py_float (get_or_zero v) = None \<longleftrightarrow> v = Some JNull"
  by (cases v; cases "the v") (auto simp add: get_or_zero_def)

lemma get_or_zero_int_None: "py_int (get_or_zero v) = None \<longleftrightarrow> v = Some JNull"
  by (cases v; cases "the v") (auto simp add: get_or_zero_def)







subsection \<open>C3: what creating a loan rejects\<close>




subsection \<open>C4: the count of installments paid\<close>







subsection \<open>C5: the remaining amount\<close>










subsection \<open>The bill of the next month\<close>

lemma advance_created:
  assumes "fst (advance_recurring_bill uid bill loan new_id bs) = Some nb"
  shows "is_active loan" "frequency bill = ''monthly''"
    "\<not> (\<exists>b \<in> set bs. user_id b = uid \<and> name b = name bill \<and>
           due_date b = add_months (due_date bill) 1)"
    "snd (advance_recurring_bill uid bill loan new_id bs) = bs @ [nb]"
    "ident nb = new_id" "user_id nb = uid" "name nb = name bill"
    "due_date nb = add_months (due_date bill) 1" "amount nb = monthly_payment loan"
    "category nb = category bill" "frequency nb = frequency bill" "\<not> is_paid nb"
    "enable_whatsapp nb = enable_whatsapp bill" "enable_call nb = enable_call bill"
    "enable_sms nb = enable_sms bill"
    "enable_local_notification nb = enable_local_notification bill"
  using assms
  by (auto simp add: advance_recurring_bill_def Let_def find_None_iff
      split: if_splits option.splits)

lemma advance_none:
  "\<not> is_active loan \<or> frequency bill \<noteq> ''monthly'' \<or>
   (\<exists>b \<in> set bs. user_id b = uid \<and> name b = name bill \<and>
      due_date b = add_months (due_date bill) 1) \<Longrightarrow>
   advance_recurring_bill uid bill loan new_id bs = (None, bs)"
  by (auto simp add: advance_recurring_bill_def Let_def find_None_iff split: option.splits)

lemma advance_some:
  "is_active loan \<Longrightarrow> frequency bill = ''monthly'' \<Longrightarrow>
   \<not> (\<exists>b \<in> set bs. user_id b = uid \<and> name b = name bill \<and>
         due_date b = add_months (due_date bill) 1) \<Longrightarrow>
   fst (advance_recurring_bill uid bill loan new_id bs) \<noteq> None"
  by (auto simp add: advance_recurring_bill_def Let_def find_None_iff split: option.splits)

lemma advance_cases:
  "advance_recurring_bill uid bill loan new_id bs = (None, bs) \<or>
   (\<exists>nb. advance_recurring_bill uid bill loan new_id bs = (Some nb, bs @ [nb]) \<and>
      user_id nb = uid \<and> name nb = name bill \<and> due_date nb = add_months (due_date bill) 1 \<and>
      ident nb = new_id)"
  by (auto simp add: advance_recurring_bill_def Let_def split: option.splits)

lemma advance_again:
  assumes "name bill2 = name bill" "due_date bill2 = due_date bill"
    "fst (advance_recurring_bill uid bill loan id1 bs) = Some nb"
  shows "advance_recurring_bill uid bill2 loan2 id2
           (snd (advance_recurring_bill uid bill loan id1 bs)) =
         (None, snd (advance_recurring_bill uid bill loan id1 bs))"
proof -
  note c = advance_created [OF assms(3)]
  have "\<exists>b \<in> set (bs @ [nb]). user_id b = uid \<and> name b = name bill2 \<and>
      due_date b = add_months (due_date bill2) 1"
    using c(6,7,8) assms(1,2) by simp
  then show ?thesis
    using advance_none [of loan2 bill2 "bs @ [nb]" uid id2] c(4) by simp
qed

lemma advance_idem:
  "advance_recurring_bill uid bill loan id2
     (snd (advance_recurring_bill uid bill loan id1 bs)) =
   (None, snd (advance_recurring_bill uid bill loan id1 bs))"
proof (cases "fst (advance_recurring_bill uid bill loan id1 bs)")
  case None
  then have s: "snd (advance_recurring_bill uid bill loan id1 bs) = bs"
    using advance_cases [of uid bill loan id1 bs] by auto
  have "\<not> is_active loan \<or> frequency bill \<noteq> ''monthly'' \<or>
   (\<exists>b \<in> set bs. user_id b = uid \<and> name b = name bill \<and>
      due_date b = add_months (due_date bill) 1)"
    using None advance_some [of loan bill bs uid id1] by blast
  then show ?thesis
    using advance_none [of loan bill bs uid id2] s by simp
next
  case (Some nb)
  then show ?thesis
    using advance_again [of bill bill uid loan id1 bs nb loan id2] by simp
qed

lemma put_bill_idem: "put_bill b (put_bill b bs) = put_bill b bs"
  by (induction bs) (auto simp add: put_bill_def)

lemma put_bill_append: "put_bill b (xs @ ys) = put_bill b xs @ put_bill b ys"
  by (simp add: put_bill_def)

lemma put_bill_other: "ident x \<noteq> ident b \<Longrightarrow> put_bill b [x] = [x]"
  by (simp add: put_bill_def)

lemma length_put_bill: "length (put_bill b bs) = length bs"
  by (simp add: put_bill_def)

lemma find_put_bill:
  "find (\<lambda>x. ident x = bid \<and> user_id x = uid) bs = Some bill \<Longrightarrow>
   ident b = bid \<Longrightarrow> user_id b = uid \<Longrightarrow>
   find (\<lambda>x. ident x = bid \<and> user_id x = uid) (put_bill b bs) = Some b"
  by (induction bs) (auto simp add: put_bill_def split: if_splits)

lemma record_bills:
  "bills (snd (record_loan_payment uid bid data now now2 new_id s)) =
     (case find_bill bid uid s of
        None \<Rightarrow> bills s
      | Some bill \<Rightarrow>
          (case find_loan bid s of
             None \<Rightarrow> bills s
           | Some loan \<Rightarrow>
               if is_active loan
               then snd (advance_recurring_bill uid (bill\<lparr>is_paid := True\<rparr>)
                          (fst (make_payment loan
                                  (case data of None \<Rightarrow> JNull | Some v \<Rightarrow> v) now now2))
                          new_id (put_bill (bill\<lparr>is_paid := True\<rparr>) (bills s)))
               else bills s))"
  by (simp add: record_loan_payment_def Let_def split: option.splits prod.splits)

lemma record_twice_bills:
  assumes fresh: "id1 \<noteq> bid"
  shows "bills (snd (record_loan_payment uid bid d2 n2 m2 id2
                  (snd (record_loan_payment uid bid d1 n1 m1 id1 s)))) =
         bills (snd (record_loan_payment uid bid d1 n1 m1 id1 s))"
proof (cases "find_bill bid uid s")
  case None
  then show ?thesis by (simp add: record_loan_payment_def)
next
  case (Some bill)
  note bill = Some
  have keys: "ident bill = bid" "user_id bill = uid"
    using find_bill_keys [OF bill] by simp_all
  show ?thesis
  proof (cases "find_loan bid s")
    case None
    then show ?thesis using bill by (simp add: record_loan_payment_def)
  next
    case (Some loan)
    note loan = Some
    show ?thesis
    proof (cases "is_active loan")
      case False
      then show ?thesis using bill loan by (simp add: record_loan_payment_def)
    next
      case True
      let ?s1 = "snd (record_loan_payment uid bid d1 n1 m1 id1 s)"
      let ?bill' = "bill\<lparr>is_paid := True\<rparr>"
      let ?loan' = "fst (make_payment loan (case d1 of None \<Rightarrow> JNull | Some v \<Rightarrow> v) n1 m1)"
      let ?bs = "put_bill ?bill' (bills s)"
      let ?adv = "advance_recurring_bill uid ?bill' ?loan' id1 ?bs"
      have b1: "bills ?s1 = snd ?adv"
        using bill loan True by (simp add: record_bills)
      have l1: "find_loan bid ?s1 = Some ?loan'"
        using record_payment_active [OF bill loan True, of d1 n1 m1 id1] by auto
      have fb: "find (\<lambda>x. ident x = bid \<and> user_id x = uid) ?bs = Some ?bill'"
        using bill keys by (intro find_put_bill) (simp_all add: find_bill_def)
      have cases: "?adv = (None, ?bs) \<or>
          (\<exists>nb. ?adv = (Some nb, ?bs @ [nb]) \<and> user_id nb = uid \<and> name nb = name ?bill' \<and>
             due_date nb = add_months (due_date ?bill') 1 \<and> ident nb = id1)"
        by (rule advance_cases)
      have f1: "find_bill bid uid ?s1 = Some ?bill'"
        using cases fb b1 by (auto simp add: find_bill_def find_append_first)
      show ?thesis
      proof (cases "is_active ?loan'")
        case False
        then show ?thesis using f1 l1 by (simp add: record_bills)
      next
        case active': True
        let ?loan'' = "fst (make_payment ?loan' (case d2 of None \<Rightarrow> JNull | Some v \<Rightarrow> v) n2 m2)"
        have same: "put_bill ?bill' (snd ?adv) = snd ?adv"
          using cases fresh keys
          by (auto simp add: put_bill_idem put_bill_append put_bill_other)
        have b2: "bills (snd (record_loan_payment uid bid d2 n2 m2 id2 ?s1)) =
            snd (advance_recurring_bill uid ?bill' ?loan'' id2 (snd ?adv))"
          using f1 l1 active' b1 same by (simp add: record_bills)
        have "advance_recurring_bill uid ?bill' ?loan'' id2 (snd ?adv) = (None, snd ?adv)"
        proof (cases "fst ?adv")
          case None
          then have s: "snd ?adv = ?bs" using cases by auto
          have "frequency ?bill' \<noteq> ''monthly'' \<or>
              (\<exists>b \<in> set ?bs. user_id b = uid \<and> name b = name ?bill' \<and>
                 due_date b = add_months (due_date ?bill') 1)"
            using None active' advance_some [of ?loan' ?bill' ?bs uid id1] by blast
          then show ?thesis
            using advance_none [of ?loan'' ?bill' ?bs uid id2] s by auto
        next
          case (Some nb)
          then show ?thesis
            using advance_again [of ?bill' ?bill' uid ?loan' id1 ?bs nb ?loan'' id2] by simp
        qed
        then show ?thesis using b1 b2 by simp
      qed
    qed
  qed
qed

subsection \<open>C9: the bill of the next month is created once\<close>

lemma example_advance_amount:
  "map_option amount (fst (advance_recurring_bill ''u1'' example_bill example_loan ''b2''
                             [example_bill])) = Some 100"
  by code_simp

lemma example_advance_length:
  "length (snd (advance_recurring_bill ''u1'' example_bill example_loan ''b2''
                  [example_bill])) = 2"
  by code_simp

text \<open>
  C9: advancing the recurring bill is idempotent. Invoked twice for the same user, bill
  name and due date it creates at most one successor bill, the existence test being on
  user, name and due date: a second invocation with the same arguments returns nothing
  and leaves the table as the first left it, and so does a second payment request on the
  same bill (the new row having a key of its own). A successor is created only when the
  loan is still active and the bill's frequency is "monthly"; it carries the loan's
  \<^verbatim>\<open>monthly_payment\<close> as amount and the bill's category, frequency and notification
  preferences. Nothing is returned when a successor already exists or the loan is no
  longer active.
\<close>

theorem advance_recurring_bill_idempotent:
  "(name bill2 = name bill \<and> due_date bill2 = due_date bill \<longrightarrow>
      (fst (advance_recurring_bill uid bill loan id1 bs) = None \<or>
       fst (advance_recurring_bill uid bill2 loan2 id2
              (snd (advance_recurring_bill uid bill loan id1 bs))) = None) \<and>
      length (snd (advance_recurring_bill uid bill2 loan2 id2
                     (snd (advance_recurring_bill uid bill loan id1 bs)))) \<le> length bs + 1) \<and>
   advance_recurring_bill uid bill loan id2
       (snd (advance_recurring_bill uid bill loan id1 bs)) =
     (None, snd (advance_recurring_bill uid bill loan id1 bs)) \<and>
   (id1 \<noteq> bid \<longrightarrow>
      bills (snd (record_loan_payment uid bid d2 n2 m2 id2
                    (snd (record_loan_payment uid bid d1 n1 m1 id1 s)))) =
      bills (snd (record_loan_payment uid bid d1 n1 m1 id1 s))) \<and>
   (fst (advance_recurring_bill uid bill loan id1 bs) = Some nb \<longrightarrow>
      is_active loan \<and> frequency bill = ''monthly'' \<and>
      \<not> (\<exists>b \<in> set bs. user_id b = uid \<and> name b = name bill \<and>
            due_date b = add_months (due_date bill) 1) \<and>
      snd (advance_recurring_bill uid bill loan id1 bs) = bs @ [nb] \<and>
      user_id nb = uid \<and> name nb = name bill \<and>
      due_date nb = add_months (due_date bill) 1 \<and>
      amount nb = monthly_payment loan \<and> category nb = category bill \<and>
      frequency nb = frequency bill \<and>
      enable_whatsapp nb = enable_whatsapp bill \<and> enable_call nb = enable_call bill \<and>
      enable_sms nb = enable_sms bill \<and>
      enable_local_notification nb = enable_local_notification bill) \<and>
   (\<not> is_active loan \<or>
    (\<exists>b \<in> set bs. user_id b = uid \<and> name b = name bill \<and>
       due_date b = add_months (due_date bill) 1) \<longrightarrow>
      advance_recurring_bill uid bill loan id1 bs = (None, bs)) \<and>
   (is_active loan \<and> frequency bill = ''monthly'' \<and>
    \<not> (\<exists>b \<in> set bs. user_id b = uid \<and> name b = name bill \<and>
          due_date b = add_months (due_date bill) 1) \<longrightarrow>
      fst (advance_recurring_bill uid bill loan id1 bs) \<noteq> None)"
proof (intro conjI impI)
  let ?first = "advance_recurring_bill uid bill loan id1 bs"
  {
    assume same: "name bill2 = name bill \<and> due_date bill2 = due_date bill"
    have both: "(fst ?first = None \<or>
         fst (advance_recurring_bill uid bill2 loan2 id2 (snd ?first)) = None) \<and>
        length (snd (advance_recurring_bill uid bill2 loan2 id2 (snd ?first))) \<le> length bs + 1"
    proof (cases "fst ?first")
      case None
      then have "snd ?first = bs"
        using advance_cases [of uid bill loan id1 bs] by auto
      then show ?thesis
        using None advance_cases [of uid bill2 loan2 id2 bs] by auto
    next
      case (Some x)
      have "advance_recurring_bill uid bill2 loan2 id2 (snd ?first) = (None, snd ?first)"
        using advance_again [of bill2 bill uid loan id1 bs x loan2 id2] same Some by simp
      moreover have "snd ?first = bs @ [x]"
        using advance_created(4) [OF Some] .
      ultimately show ?thesis by simp
    qed
    from both show "fst ?first = None \<or>
         fst (advance_recurring_bill uid bill2 loan2 id2 (snd ?first)) = None" by simp
    from both show
      "length (snd (advance_recurring_bill uid bill2 loan2 id2 (snd ?first))) \<le> length bs + 1"
      by simp
  }
  show "advance_recurring_bill uid bill loan id2 (snd ?first) = (None, snd ?first)"
    by (rule advance_idem)
  show "bills (snd (record_loan_payment uid bid d2 n2 m2 id2
                    (snd (record_loan_payment uid bid d1 n1 m1 id1 s)))) =
      bills (snd (record_loan_payment uid bid d1 n1 m1 id1 s))"
    if "id1 \<noteq> bid"
    using that by (rule record_twice_bills)
  {
    assume c: "fst ?first = Some nb"
    note f = advance_created [OF c]
    show "is_active loan" by (rule f(1))
    show "frequency bill = ''monthly''" by (rule f(2))
    show "\<not> (\<exists>b \<in> set bs. user_id b = uid \<and> name b = name bill \<and>
            due_date b = add_months (due_date bill) 1)" by (rule f(3))
    show "snd ?first = bs @ [nb]" by (rule f(4))
    show "user_id nb = uid" by (rule f(6))
    show "name nb = name bill" by (rule f(7))
    show "due_date nb = add_months (due_date bill) 1" by (rule f(8))
    show "amount nb = monthly_payment loan" by (rule f(9))
    show "category nb = category bill" by (rule f(10))
    show "frequency nb = frequency bill" by (rule f(11))
    show "enable_whatsapp nb = enable_whatsapp bill" by (rule f(13))
    show "enable_call nb = enable_call bill" by (rule f(14))
    show "enable_sms nb = enable_sms bill" by (rule f(15))
    show "enable_local_notification nb = enable_local_notification bill" by (rule f(16))
  }
  show "?first = (None, bs)"
    if "\<not> is_active loan \<or>
      (\<exists>b \<in> set bs. user_id b = uid \<and> name b = name bill \<and>
         due_date b = add_months (due_date bill) 1)"
    using that advance_none [of loan bill bs uid id1] by blast
  show "fst ?first \<noteq> None"
    if "is_active loan \<and> frequency bill = ''monthly'' \<and>
      \<not> (\<exists>b \<in> set bs. user_id b = uid \<and> name b = name bill \<and>
            due_date b = add_months (due_date bill) 1)"
    using that advance_some [of loan bill bs uid id1] by blast
qed

theorem advance_recurring_bill_idempotent_witness:
  "is_active example_loan \<and> frequency example_bill = ''monthly'' \<and>
   map_option amount (fst (advance_recurring_bill ''u1'' example_bill example_loan ''b2''
                             [example_bill])) = Some 100 \<and>
   length (snd (advance_recurring_bill ''u1'' example_bill example_loan ''b2''
                  [example_bill])) = 2 \<and>
   advance_recurring_bill ''u1'' example_bill example_loan ''b3''
       (snd (advance_recurring_bill ''u1'' example_bill example_loan ''b2'' [example_bill])) =
     (None, snd (advance_recurring_bill ''u1'' example_bill example_loan ''b2''
                   [example_bill]))"
proof -
  have a: "is_active example_loan" by (simp add: example_loan_fields)
  have f: "frequency example_bill = ''monthly''" by (simp add: example_bill_def)
  note t = advance_recurring_bill_idempotent
    [where bill = example_bill and ?bill2.0 = example_bill and uid = "''u1''"
       and loan = example_loan and ?loan2.0 = example_loan and ?id1.0 = "''b2''"
       and ?id2.0 = "''b3''" and bs = "[example_bill]" and bid = "''b1''" and s = example_db
       and ?d1.0 = None and ?d2.0 = None and ?n1.0 = jan_2025 and ?n2.0 = jan_2025
       and ?m1.0 = jan_2025 and ?m2.0 = jan_2025 and nb = example_bill]
  have i: "advance_recurring_bill ''u1'' example_bill example_loan ''b3''
       (snd (advance_recurring_bill ''u1'' example_bill example_loan ''b2'' [example_bill])) =
     (None, snd (advance_recurring_bill ''u1'' example_bill example_loan ''b2''
                   [example_bill]))"
    using t by (elim conjE)
  show ?thesis
    by (intro conjI) (fact a f i example_advance_amount example_advance_length)+
qed

end
